theory Spec2Isabelle
  imports Main
begin

section \<open>JavaScript strings\<close>

text \<open>
  A JavaScript string is a sequence of UTF-16 code units. A code unit is modelled by its
  number, so that every constant of the source (also the ones beyond Latin-1) can be written
  down; \<open>js\<close> turns an ASCII literal into its code units.
\<close>

type_synonym jstring = "nat list"

definition js :: "string \<Rightarrow> jstring" where
  "js s = map of_char s"

text \<open>The line terminators of ECMAScript: LF, CR, LS, PS.\<close>

definition isLineTerminator :: "nat \<Rightarrow> bool" where
  "isLineTerminator c \<longleftrightarrow> c = 10 \<or> c = 13 \<or> c = 8232 \<or> c = 8233"

text \<open>
  The class \<open>\s\<close> of regular expressions, which is also what \<open>String.prototype.trim\<close>
  strips: TAB, LF, VT, FF, CR, SP, NBSP, the other space separators of Unicode, LS, PS and
  the byte order mark.
\<close>

definition isWhiteSpace :: "nat \<Rightarrow> bool" where
  "isWhiteSpace c \<longleftrightarrow>
     c = 9 \<or> c = 10 \<or> c = 11 \<or> c = 12 \<or> c = 13 \<or> c = 32 \<or> c = 160 \<or> c = 5760 \<or>
     (8192 \<le> c \<and> c \<le> 8202) \<or> c = 8232 \<or> c = 8233 \<or> c = 8239 \<or> c = 8287 \<or>
     c = 12288 \<or> c = 65279"

definition isDigit :: "nat \<Rightarrow> bool" where
  "isDigit c \<longleftrightarrow> 48 \<le> c \<and> c \<le> 57"

definition isAlnum :: "nat \<Rightarrow> bool" where
  "isAlnum c \<longleftrightarrow> (97 \<le> c \<and> c \<le> 122) \<or> (65 \<le> c \<and> c \<le> 90) \<or> (48 \<le> c \<and> c \<le> 57)"

definition isBlank :: "nat \<Rightarrow> bool" where
  "isBlank c \<longleftrightarrow> c = 32 \<or> c = 9"

definition trim :: "jstring \<Rightarrow> jstring" where
  "trim s = rev (dropWhile isWhiteSpace (rev (dropWhile isWhiteSpace s)))"

text \<open>\<open>toLowerCase\<close>, which the source applies to runs of \<open>[a-zA-Z0-9]\<close> only.\<close>

definition toLowerCase :: "jstring \<Rightarrow> jstring" where
  "toLowerCase s = map (\<lambda>c. if 65 \<le> c \<and> c \<le> 90 then c + 32 else c) s"

text \<open>
  \<open>parseInt\<close> on a run of decimal digits, and the decimal rendering of a number in a
  template string. JavaScript numbers are doubles: both functions are exact for values
  below \<open>2 ^ 53\<close>, which is the range the model covers.
\<close>

definition parseInt :: "jstring \<Rightarrow> nat" where
  "parseInt ds = foldl (\<lambda>n d. 10 * n + (d - 48)) 0 ds"

function numberToString :: "nat \<Rightarrow> jstring" where
  "numberToString n =
     (if n < 10 then [48 + n] else numberToString (n div 10) @ [48 + n mod 10])"
  by pat_completeness auto
termination
  by (relation "measure id") auto

declare numberToString.simps [simp del]

text \<open>\<open>s.split('\n').pop()\<close>: what follows the last line feed of \<open>s\<close>.\<close>

definition lastLine :: "jstring \<Rightarrow> jstring" where
  "lastLine s = rev (takeWhile (\<lambda>c. c \<noteq> 10) (rev s))"

section \<open>Regular expressions\<close>

text \<open>
  The regular expressions of the source are kept as syntax trees and run by a backtracking
  matcher with the priorities of ECMAScript: the alternatives of \<open>|\<close> from left to right,
  a greedy quantifier tries one more iteration before it tries to stop, a lazy one the other
  way round, and an iteration that consumes nothing is rejected. \<open>run r (s, c)\<close> lists, best
  first, every way in which \<open>r\<close> matches a prefix of \<open>s\<close>: the input that is left and the
  capture groups.
\<close>

datatype regex =
    Class "nat \<Rightarrow> bool"
  | Eps
  | Seq regex regex
  | Alt regex regex
  | Star regex
  | Lazy regex
  | Group nat regex
  | Ahead regex
  | EndLine

type_synonym captures = "nat \<rightharpoonup> jstring"
type_synonym mstate = "jstring \<times> captures"

function run :: "regex \<Rightarrow> mstate \<Rightarrow> mstate list" where
  "run (Class p) st =
     (case fst st of [] \<Rightarrow> [] | x # xs \<Rightarrow> if p x then [(xs, snd st)] else [])"
| "run Eps st = [st]"
| "run (Seq a b) st = concat (map (run b) (run a st))"
| "run (Alt a b) st = run a st @ run b st"
| "run (Star a) st =
     concat (map (run (Star a))
       (filter (\<lambda>st'. length (fst st') < length (fst st)) (run a st))) @ [st]"
| "run (Lazy a) st =
     st # concat (map (run (Lazy a))
       (filter (\<lambda>st'. length (fst st') < length (fst st)) (run a st)))"
| "run (Group n a) st =
     map (\<lambda>st'. (fst st',
            (snd st')(n \<mapsto> take (length (fst st) - length (fst st')) (fst st))))
       (run a st)"
| "run (Ahead a) st = (case run a st of [] \<Rightarrow> [] | st' # _ \<Rightarrow> [(fst st, snd st')])"
| "run EndLine st =
     (case fst st of [] \<Rightarrow> [st] | x # _ \<Rightarrow> if isLineTerminator x then [st] else [])"
  by pat_completeness auto
termination
  by (relation "measures [\<lambda>(r, st). size r, \<lambda>(r, st). length (fst st)]") auto

text \<open>The match of \<open>r\<close> that starts at the head of \<open>s\<close>, if there is one.\<close>

definition matchAt :: "regex \<Rightarrow> jstring \<Rightarrow> mstate option" where
  "matchAt r s = (case run r (s, Map.empty) of [] \<Rightarrow> None | st # _ \<Rightarrow> Some st)"

text \<open>
  What a replacement callback is given: the matched text, the capture groups, and the part
  of the subject before the match (\<open>string.substring(0, offset)\<close>).
\<close>

record rmatch =
  matched :: jstring
  groups :: captures
  before :: jstring

text \<open>\<open>$n\<close> in a replacement template: a group that took no part is the empty string.\<close>

definition grp :: "rmatch \<Rightarrow> nat \<Rightarrow> jstring" where
  "grp m n = (case groups m n of None \<Rightarrow> [] | Some g \<Rightarrow> g)"

text \<open>
  \<open>s.replace(/r/g, f)\<close>: the matches are found from left to right, each search starting
  where the last match ended (one code unit further after an empty match); what lies
  between the matches is copied.
\<close>

function replaceAll :: "regex \<Rightarrow> (rmatch \<Rightarrow> jstring) \<Rightarrow> jstring \<Rightarrow> jstring \<Rightarrow> jstring" where
  "replaceAll r f pre s =
     (case matchAt r s of
        None \<Rightarrow> (case s of [] \<Rightarrow> [] | x # xs \<Rightarrow> x # replaceAll r f (pre @ [x]) xs)
      | Some st \<Rightarrow>
          f \<lparr>matched = take (length s - length (fst st)) s, groups = snd st, before = pre\<rparr> @
          (if length (fst st) < length s
           then replaceAll r f (pre @ take (length s - length (fst st)) s) (fst st)
           else (case s of [] \<Rightarrow> [] | x # xs \<Rightarrow> x # replaceAll r f (pre @ [x]) xs)))"
  by pat_completeness auto
termination
  by (relation "measure (\<lambda>(r, f, pre, s). length s)") auto

declare replaceAll.simps [simp del]

definition replace :: "regex \<Rightarrow> (rmatch \<Rightarrow> jstring) \<Rightarrow> jstring \<Rightarrow> jstring" where
  "replace r f s = replaceAll r f [] s"

text \<open>
  \<open>s.match(/r/)\<close> without the \<open>g\<close> flag: the leftmost match, as the text before it, the
  matched text and the groups.
\<close>

fun search :: "regex \<Rightarrow> jstring \<Rightarrow> jstring \<Rightarrow> rmatch option" where
  "search r pre [] =
     (case matchAt r [] of
        None \<Rightarrow> None
      | Some st \<Rightarrow> Some \<lparr>matched = [], groups = snd st, before = pre\<rparr>)"
| "search r pre (x # xs) =
     (case matchAt r (x # xs) of
        None \<Rightarrow> search r (pre @ [x]) xs
      | Some st \<Rightarrow>
          Some \<lparr>matched = take (length (x # xs) - length (fst st)) (x # xs),
                groups = snd st, before = pre\<rparr>)"

subsection \<open>Notation of the patterns\<close>

definition chr :: "nat \<Rightarrow> regex" where
  "chr c = Class (\<lambda>x. x = c)"

definition seqs :: "regex list \<Rightarrow> regex" where
  "seqs rs = foldr Seq rs Eps"

definition lit :: "string \<Rightarrow> regex" where
  "lit s = seqs (map (\<lambda>c. chr (of_char c)) s)"

definition oneOf :: "string \<Rightarrow> regex" where
  "oneOf s = Class (\<lambda>c. c \<in> set (js s))"

definition noneOf :: "string \<Rightarrow> regex" where
  "noneOf s = Class (\<lambda>c. c \<notin> set (js s))"

definition Plus :: "regex \<Rightarrow> regex" where
  "Plus a = Seq a (Star a)"

definition LazyPlus :: "regex \<Rightarrow> regex" where
  "LazyPlus a = Seq a (Lazy a)"

text \<open>\<open>a{n}\<close>, \<open>a{0,k}\<close>, \<open>a{m,n}\<close> and \<open>a{m,}\<close>.\<close>

fun times :: "nat \<Rightarrow> regex \<Rightarrow> regex" where
  "times 0 a = Eps"
| "times (Suc n) a = Seq a (times n a)"

fun upTo :: "nat \<Rightarrow> regex \<Rightarrow> regex" where
  "upTo 0 a = Eps"
| "upTo (Suc k) a = Alt (Seq a (upTo k a)) Eps"

definition between :: "nat \<Rightarrow> nat \<Rightarrow> regex \<Rightarrow> regex" where
  "between m n a = Seq (times m a) (upTo (n - m) a)"

definition atLeast :: "nat \<Rightarrow> regex \<Rightarrow> regex" where
  "atLeast m a = Seq (times m a) (Star a)"

text \<open>\<open>\s\<close>, \<open>\S\<close>, \<open>\d\<close>, \<open>.\<close>, \<open>[ \t]\<close>, \<open>[a-zA-Z0-9]\<close>, \<open>[\s\S]\<close> and \<open>#\<close>.\<close>

definition ws :: regex where "ws = Class isWhiteSpace"
definition nws :: regex where "nws = Class (\<lambda>c. \<not> isWhiteSpace c)"
definition digit :: regex where "digit = Class isDigit"
definition dot :: regex where "dot = Class (\<lambda>c. \<not> isLineTerminator c)"
definition blank :: regex where "blank = Class isBlank"
definition alnum :: regex where "alnum = Class isAlnum"
definition anyChar :: regex where "anyChar = Class (\<lambda>c. True)"
definition hash :: regex where "hash = chr 35"

section \<open>The Markdown post-processor\<close>

text \<open>
  \<open>postProcessMarkdown\<close> of \<open>markdownConversionService.ts\<close>: a chain of \<open>replace\<close> calls,
  in the order of the source, and a final \<open>trim\<close>. Each step below quotes its pattern.
\<close>

definition emphasisDelimiter :: regex where
  "emphasisDelimiter = Alt (lit ''**'') (Alt (lit ''*'') (Alt (lit ''__'') (lit ''_'')))"

text \<open>The callback of the ordered-list step.\<close>

definition renumber :: "rmatch \<Rightarrow> jstring" where
  "renumber m =
     (let prevLine = lastLine (before m);
          isNewList = (search (seqs [Plus digit, chr 46, Plus ws]) [] prevLine = None);
          number = (if isNewList then 1
                    else (case search (seqs [Group 1 (Plus digit), chr 46, Plus ws]) [] prevLine of
                            None \<Rightarrow> parseInt (js ''0'')
                          | Some pm \<Rightarrow> parseInt (if grp pm 1 = [] then js ''0'' else grp pm 1)) + 1)
      in [10] @ numberToString number @ js ''. '')"

definition postProcessSteps :: "(jstring \<Rightarrow> jstring) list" where
  \<open>postProcessSteps =
   [ \<comment> \<open>\<open>/\r\n/g\<close>\<close>
     replace (seqs [chr 13, chr 10]) (\<lambda>m. [10]),
     \<comment> \<open>\<open>/\n{3,}/g\<close>\<close>
     replace (atLeast 3 (chr 10)) (\<lambda>m. [10, 10]),
     \<comment> \<open>\<open>/\n\s*[-*+]\s/g\<close>\<close>
     replace (seqs [chr 10, Star ws, oneOf ''-*+'', ws]) (\<lambda>m. js ''\<newline>- ''),
     \<comment> \<open>\<open>/(\n```[^\n]*\n)(.*?)(\n```\s*)/g\<close>\<close>
     replace (seqs [Group 1 (seqs [lit ''\<newline>```'', Star (noneOf ''\<newline>''), chr 10]),
                    Group 2 (Lazy dot),
                    Group 3 (seqs [lit ''\<newline>```'', Star ws])])
       (\<lambda>m. [10] @ grp m 1 @ grp m 2 @ grp m 3 @ [10]),
     \<comment> \<open>\<open>/\n(#{1,6})\s*([^\n]+)/g\<close>\<close>
     replace (seqs [chr 10, Group 1 (between 1 6 hash), Star ws,
                    Group 2 (Plus (noneOf ''\<newline>''))])
       (\<lambda>m. [10] @ grp m 1 @ js '' '' @ grp m 2),
     \<comment> \<open>\<open>/[ \t]+$/gm\<close>\<close>
     replace (seqs [Plus blank, EndLine]) (\<lambda>m. []),
     \<comment> \<open>\<open>/\|[ \t]+/g\<close>\<close>
     replace (seqs [chr 124, Plus blank]) (\<lambda>m. js ''| ''),
     \<comment> \<open>\<open>/[ \t]+\|/g\<close>\<close>
     replace (seqs [Plus blank, chr 124]) (\<lambda>m. js '' |''),
     \<comment> \<open>\<open>/\n\s{2,}[-*+]\s/g\<close>, with \<open>Math.floor((match.length - 3) / 2) * 2\<close> spaces\<close>
     replace (seqs [chr 10, atLeast 2 ws, oneOf ''-*+'', ws])
       (\<lambda>m. [10] @ replicate ((length (matched m) - 3) div 2 * 2) 32 @ js ''- ''),
     \<comment> \<open>\<open>/\n>\s*\n>/g\<close>\<close>
     replace (seqs [lit ''\<newline>>'', Star ws, lit ''\<newline>>'']) (\<lambda>m. js ''\<newline>>\<newline>>''),
     \<comment> \<open>\<open>/\n([-*_]{3,})\n/g\<close>\<close>
     replace (seqs [chr 10, Group 1 (atLeast 3 (oneOf ''-*_'')), chr 10])
       (\<lambda>m. [10, 10] @ grp m 1 @ [10, 10]),
     \<comment> \<open>\<open>/(\n#{1,6} [^\n]+\n)(?=#{1,6} [^\n]+)/g\<close>\<close>
     replace (seqs [Group 1 (seqs [chr 10, between 1 6 hash, chr 32,
                                   Plus (noneOf ''\<newline>''), chr 10]),
                    Ahead (seqs [between 1 6 hash, chr 32, Plus (noneOf ''\<newline>'')])])
       (\<lambda>m. grp m 1 @ [10]),
     \<comment> \<open>\<open>/\[([^\]]+)\]\(([^)]+)\)/g\<close>\<close>
     replace (seqs [chr 91, Group 1 (Plus (noneOf '']'')), chr 93, chr 40,
                    Group 2 (Plus (noneOf '')'')), chr 41])
       (\<lambda>m. js ''['' @ trim (grp m 1) @ js '']('' @ trim (grp m 2) @ js '')''),
     \<comment> \<open>\<open>/`\s+([^`]+)\s+`/g\<close>\<close>
     replace (seqs [chr 96, Plus ws, Group 1 (Plus (noneOf ''`'')), Plus ws, chr 96])
       (\<lambda>m. js ''`'' @ grp m 1 @ js ''`''),
     \<comment> \<open>\<open>/\n\s*\d+\.\s+/g\<close>\<close>
     replace (seqs [chr 10, Star ws, Plus digit, chr 46, Plus ws]) renumber,
     \<comment> \<open>\<open>/```([a-zA-Z0-9]+)/g\<close>\<close>
     replace (seqs [lit ''```'', Group 1 (Plus alnum)])
       (\<lambda>m. js ''```'' @ toLowerCase (grp m 1)),
     \<comment> \<open>\<open>/(\S)(\*\*|\*|__|_)(\S)/g\<close>\<close>
     replace (seqs [Group 1 nws, Group 2 emphasisDelimiter, Group 3 nws])
       (\<lambda>m. grp m 1 @ js '' '' @ grp m 2 @ grp m 3),
     \<comment> \<open>\<open>/(\S)(\*\*|\*|__|_)(\s)/g\<close>\<close>
     replace (seqs [Group 1 nws, Group 2 emphasisDelimiter, Group 3 ws])
       (\<lambda>m. grp m 1 @ js '' '' @ grp m 2 @ grp m 3),
     \<comment> \<open>\<open>/(\s)(\*\*|\*|__|_)(\S)/g\<close>\<close>
     replace (seqs [Group 1 ws, Group 2 emphasisDelimiter, Group 3 nws])
       (\<lambda>m. grp m 1 @ grp m 2 @ js '' '' @ grp m 3),
     \<comment> \<open>\<open>/!\[(.*?)\]\((.*?)\)/g\<close>\<close>
     replace (seqs [lit ''!['', Group 1 (Lazy dot), lit '']('', Group 2 (Lazy dot), chr 41])
       (\<lambda>m. js ''!['' @ trim (grp m 1) @ js '']('' @ trim (grp m 2) @ js '')''),
     \<comment> \<open>\<open>/\n\s*[*+]\s+/g\<close>\<close>
     replace (seqs [chr 10, Star ws, oneOf ''*+'', Plus ws]) (\<lambda>m. js ''\<newline>- ''),
     \<comment> \<open>\<open>/([^\n])\n```/g\<close>\<close>
     replace (seqs [Group 1 (noneOf ''\<newline>''), lit ''\<newline>```''])
       (\<lambda>m. grp m 1 @ js ''\<newline>\<newline>```''),
     \<comment> \<open>\<open>/```\n([^\n])/g\<close>\<close>
     replace (seqs [lit ''```\<newline>'', Group 1 (noneOf ''\<newline>'')])
       (\<lambda>m. js ''```\<newline>\<newline>'' @ grp m 1),
     trim ]\<close>

definition postProcessMarkdown :: "jstring \<Rightarrow> jstring" where
  "postProcessMarkdown markdown =
     (if markdown = [] then [] else foldl (\<lambda>s step. step s) markdown postProcessSteps)"

section \<open>Strings as patterns: \<open>startsWith\<close>, \<open>includes\<close>, \<open>replace\<close>\<close>

fun startsWith :: "jstring \<Rightarrow> jstring \<Rightarrow> bool" where
  "startsWith s [] = True"
| "startsWith [] (p # ps) = False"
| "startsWith (x # xs) (p # ps) = (x = p \<and> startsWith xs ps)"

text \<open>
  \<open>splitFirst pat pre s\<close> cuts \<open>s\<close> at the first occurrence of \<open>pat\<close>: what is before it
  (after \<open>pre\<close>) and what is after it.
\<close>

fun splitFirst :: "jstring \<Rightarrow> jstring \<Rightarrow> jstring \<Rightarrow> (jstring \<times> jstring) option" where
  "splitFirst pat pre [] = (if pat = [] then Some (pre, []) else None)"
| "splitFirst pat pre (x # xs) =
     (if startsWith (x # xs) pat then Some (pre, drop (length pat) (x # xs))
      else splitFirst pat (pre @ [x]) xs)"


text \<open>
  The replacement text of \<open>replace\<close> with a string pattern: \<open>$$\<close> is a dollar sign,
  \<open>$&\<close> the match, \<open>$`\<close> what is before it, \<open>$'\<close> what is after it; a string pattern has
  no groups, so that every other dollar sign stands for itself.
\<close>

fun getSubstitution :: "jstring \<Rightarrow> jstring \<Rightarrow> jstring \<Rightarrow> jstring \<Rightarrow> jstring" where
  "getSubstitution m u v [] = []"
| "getSubstitution m u v [c] = [c]"
| "getSubstitution m u v (c # d # r) =
     (if c = 36 \<and> d = 36 then 36 # getSubstitution m u v r
      else if c = 36 \<and> d = 38 then m @ getSubstitution m u v r
      else if c = 36 \<and> d = 96 then u @ getSubstitution m u v r
      else if c = 36 \<and> d = 39 then v @ getSubstitution m u v r
      else c # getSubstitution m u v (d # r))"

text \<open>\<open>s.replace(pat, repl)\<close> for strings \<open>pat\<close> and \<open>repl\<close>: the first occurrence only.\<close>

definition replaceString :: "jstring \<Rightarrow> jstring \<Rightarrow> jstring \<Rightarrow> jstring" where
  "replaceString s pat repl =
     (case splitFirst pat [] s of
        None \<Rightarrow> s
      | Some (u, v) \<Rightarrow> u @ getSubstitution pat u v repl @ v)"

section \<open>The document tree\<close>

text \<open>
  An element has a tag name (in lower case, as \<open>localName\<close> gives it), its attributes in
  their order, and its child nodes.
\<close>

datatype node =
    Element jstring "(jstring \<times> jstring) list" "node list"
  | Text jstring
  | Comment jstring

definition isElement :: "node \<Rightarrow> bool" where
  "isElement n = (case n of Element _ _ _ \<Rightarrow> True | _ \<Rightarrow> False)"

definition isTag :: "string \<Rightarrow> node \<Rightarrow> bool" where
  "isTag t n = (case n of Element tg _ _ \<Rightarrow> tg = js t | _ \<Rightarrow> False)"

definition childNodes :: "node \<Rightarrow> node list" where
  "childNodes n = (case n of Element _ _ cs \<Rightarrow> cs | _ \<Rightarrow> [])"

definition attributes :: "node \<Rightarrow> (jstring \<times> jstring) list" where
  "attributes n = (case n of Element _ at _ \<Rightarrow> at | _ \<Rightarrow> [])"

definition getAttribute :: "string \<Rightarrow> node \<Rightarrow> jstring option" where
  "getAttribute name n = map_of (attributes n) (js name)"

text \<open>\<open>getAttribute(name) || ''\<close>.\<close>

definition attributeOrEmpty :: "string \<Rightarrow> node \<Rightarrow> jstring" where
  "attributeOrEmpty name n = (case getAttribute name n of None \<Rightarrow> [] | Some v \<Rightarrow> v)"

fun putAttribute :: "jstring \<Rightarrow> jstring \<Rightarrow> (jstring \<times> jstring) list \<Rightarrow> (jstring \<times> jstring) list" where
  "putAttribute k v [] = [(k, v)]"
| "putAttribute k v ((k', v') # at) =
     (if k' = k then (k, v) # at else (k', v') # putAttribute k v at)"

definition setAttribute :: "string \<Rightarrow> jstring \<Rightarrow> node \<Rightarrow> node" where
  "setAttribute name v n =
     (case n of Element tg at cs \<Rightarrow> Element tg (putAttribute (js name) v at) cs | _ \<Rightarrow> n)"

text \<open>The descendants of a node in document order: what \<open>querySelectorAll('*')\<close> walks.\<close>

fun descendants :: "node \<Rightarrow> node list" where
  "descendants (Element tg at cs) = concat (map (\<lambda>c. c # descendants c) cs)"
| "descendants (Text t) = []"
| "descendants (Comment t) = []"

definition forestNodes :: "node list \<Rightarrow> node list" where
  "forestNodes cs = concat (map (\<lambda>c. c # descendants c) cs)"

text \<open>\<open>n.querySelectorAll(t)\<close> and \<open>n.querySelector(t)\<close> for a tag name \<open>t\<close>.\<close>

definition querySelectorAll :: "string \<Rightarrow> node \<Rightarrow> node list" where
  "querySelectorAll t n = filter (isTag t) (descendants n)"

definition querySelector :: "string \<Rightarrow> node \<Rightarrow> node option" where
  "querySelector t n = find (isTag t) (descendants n)"

fun textContent :: "node \<Rightarrow> jstring" where
  "textContent (Element tg at cs) =
     concat (map (\<lambda>c. case c of Comment _ \<Rightarrow> [] | _ \<Rightarrow> textContent c) cs)"
| "textContent (Text t) = t"
| "textContent (Comment t) = t"

text \<open>The child nodes after \<open>el.textContent = s\<close>: one text node, none for the empty string.\<close>

definition textNodes :: "jstring \<Rightarrow> node list" where
  "textNodes s = (if s = [] then [] else [Text s])"

text \<open>\<open>classList\<close>: the class attribute cut at ASCII white space.\<close>

definition isAsciiSpace :: "nat \<Rightarrow> bool" where
  "isAsciiSpace c \<longleftrightarrow> c = 9 \<or> c = 10 \<or> c = 12 \<or> c = 13 \<or> c = 32"

fun tokens :: "jstring \<Rightarrow> jstring \<Rightarrow> jstring list" where
  "tokens cur [] = (if cur = [] then [] else [cur])"
| "tokens cur (c # s) =
     (if isAsciiSpace c then (if cur = [] then tokens [] s else cur # tokens [] s)
      else tokens (cur @ [c]) s)"

definition classList :: "node \<Rightarrow> jstring list" where
  "classList n = remdups (tokens [] (attributeOrEmpty ''class'' n))"

section \<open>What the browser and the converter library provide\<close>

text \<open>
  The services parse and print HTML through \<open>innerHTML\<close>, read computed styles and call
  Turndown. These are not code of the repository; the model takes them as parameters:
  \<^item> \<open>parseHTML h ctx s\<close>: the child nodes of an element \<open>ctx\<close> after \<open>innerHTML = s\<close>;
  \<^item> \<open>serializeHTML h ns\<close>: the \<open>innerHTML\<close> of an element with the child nodes \<open>ns\<close>;
  \<^item> \<open>computedTextAlign h n\<close>: \<open>getComputedStyle(n).textAlign\<close>;
  \<^item> \<open>turndown h s\<close>: \<open>turndownService.turndown(s)\<close> with the rules of the service
    registered: the Markdown text, or the exception it throws.
\<close>

datatype exn = Exception jstring

record host =
  parseHTML :: "jstring \<Rightarrow> jstring \<Rightarrow> node list"
  serializeHTML :: "node list \<Rightarrow> jstring"
  computedTextAlign :: "node \<Rightarrow> jstring"
  turndown :: "jstring \<Rightarrow> exn + jstring"

definition outerHTML :: "host \<Rightarrow> node \<Rightarrow> jstring" where
  "outerHTML h n = serializeHTML h [n]"

section \<open>The structure normalizer (\<open>complexStructureService.ts\<close>)\<close>

record tableOptions =
  alignCells :: bool
  preserveTableClasses :: bool

definition DEFAULT_TABLE_OPTIONS :: tableOptions where
  "DEFAULT_TABLE_OPTIONS = \<lparr>alignCells = True, preserveTableClasses = True\<rparr>"

subsection \<open>\<open>normalizeTableStructure\<close>\<close>

text \<open>
  The source works on the tree in place; a node is then known by where it is. A path is the
  list of child indices that leads from the table to a node.
\<close>

type_synonym path = "nat list"

text \<open>The first node of a forest, in document order, that satisfies \<open>P\<close>.\<close>

fun firstPath :: "(node \<Rightarrow> bool) \<Rightarrow> nat \<Rightarrow> node list \<Rightarrow> path option" where
  "firstPath P i [] = None"
| "firstPath P i (Element tg at ch # cs) =
     (if P (Element tg at ch) then Some [i]
      else (case firstPath P 0 ch of
              Some p \<Rightarrow> Some (i # p)
            | None \<Rightarrow> firstPath P (Suc i) cs))"
| "firstPath P i (n # cs) = (if P n then Some [i] else firstPath P (Suc i) cs)"

text \<open>
  \<open>extractFirst P cs\<close> takes the first node that satisfies \<open>P\<close> out of the forest: the node
  and the forest without it.
\<close>

fun extractFirst :: "(node \<Rightarrow> bool) \<Rightarrow> node list \<Rightarrow> (node \<times> node list) option" where
  "extractFirst P [] = None"
| "extractFirst P (Element tg at ch # cs) =
     (if P (Element tg at ch) then Some (Element tg at ch, cs)
      else (case extractFirst P ch of
              Some (n, ch') \<Rightarrow> Some (n, Element tg at ch' # cs)
            | None \<Rightarrow>
                (case extractFirst P cs of
                   Some (n, cs') \<Rightarrow> Some (n, Element tg at ch # cs')
                 | None \<Rightarrow> None)))"
| "extractFirst P (x # cs) =
     (if P x then Some (x, cs)
      else (case extractFirst P cs of
              Some (n, cs') \<Rightarrow> Some (n, x # cs')
            | None \<Rightarrow> None))"

text \<open>
  The loop that fills the new \<open>tbody\<close>: every \<open>tr\<close> of the table, in document order, is
  moved to the end of the new section unless its parent is the header section (\<open>stays\<close>,
  by the path of the row). A row that is moved takes its subtree along, and rows inside it
  are moved out of it in their turn. \<open>detachRows stays pp i cs\<close> walks the children \<open>cs\<close>
  (from index \<open>i\<close>) of the node at \<open>pp\<close>: what is left of them, and the rows moved.
\<close>

fun detachRows :: "(path \<Rightarrow> bool) \<Rightarrow> path \<Rightarrow> nat \<Rightarrow> node list \<Rightarrow> node list \<times> node list" where
  "detachRows stays pp i [] = ([], [])"
| "detachRows stays pp i (Element tg at ch # cs) =
     (let (ch', m1) = detachRows stays (pp @ [i]) 0 ch;
          (cs', m2) = detachRows stays pp (Suc i) cs
      in if tg = js ''tr'' \<and> \<not> stays (pp @ [i])
         then (cs', Element tg at ch' # m1 @ m2)
         else (Element tg at ch' # cs', m1 @ m2))"
| "detachRows stays pp i (n # cs) =
     (let (cs', m2) = detachRows stays pp (Suc i) cs in (n # cs', m2))"

text \<open>
  The header row made from a first row without header cells: in the clone of the row every
  \<open>td\<close> is replaced by a new \<open>th\<close> (without attributes) whose \<open>innerHTML\<close> is that of the
  cell.
\<close>

fun cellsToHeaderCells :: "host \<Rightarrow> node \<Rightarrow> node" where
  "cellsToHeaderCells h (Element tg at cs) =
     (if tg = js ''td''
      then Element (js ''th'') [] (parseHTML h (js ''th'') (serializeHTML h cs))
      else Element tg at (map (cellsToHeaderCells h) cs))"
| "cellsToHeaderCells h n = n"

definition hasTbody :: "node list \<Rightarrow> bool" where
  "hasTbody cs \<longleftrightarrow> find (isTag ''tbody'') (forestNodes cs) \<noteq> None"

text \<open>
  \<open>normalizeTableStructure\<close>. The branches are those of the source: a header section is
  made only if the table has none and has a row; the first row is moved into it if it has a
  \<open>th\<close>, and otherwise a converted clone of it is put there, the row staying where it is;
  a body section is made only if the table has none.
\<close>

definition normalizeTableStructure :: "host \<Rightarrow> node \<Rightarrow> node" where
  "normalizeTableStructure h table =
     (case table of
        Element tg at cs \<Rightarrow>
          (let rows = filter (isTag ''tr'') (forestNodes cs) in
           case firstPath (isTag ''thead'') 0 cs of
             Some tp \<Rightarrow>
               \<comment> \<open>a header section exists: nothing is done about the header\<close>
               (if hasTbody cs then Element tg at cs
                else (let (cs', moved) = detachRows (\<lambda>p. butlast p = tp) [] 0 cs
                      in Element tg at (cs' @ [Element (js ''tbody'') [] moved])))
           | None \<Rightarrow>
               (case rows of
                  [] \<Rightarrow>
                    (if hasTbody cs then Element tg at cs
                     else Element tg at (cs @ [Element (js ''tbody'') [] []]))
                | firstRow # _ \<Rightarrow>
                    (if querySelector ''th'' firstRow \<noteq> None
                     then
                       \<comment> \<open>the first row is moved into the new header section\<close>
                       (case extractFirst (isTag ''tr'') cs of
                          None \<Rightarrow> Element tg at cs
                        | Some (r, rest) \<Rightarrow>
                            (let cur = Element (js ''thead'') [] [r] # rest in
                             if hasTbody cur then Element tg at cur
                             else (let (cur', moved) = detachRows (\<lambda>p. p = [0, 0]) [] 0 cur
                                   in Element tg at (cur' @ [Element (js ''tbody'') [] moved]))))
                     else
                       \<comment> \<open>a clone of the first row becomes the header row\<close>
                       (let headerRow =
                              (case firstRow of
                                 Element rt ra rc \<Rightarrow> Element rt ra (map (cellsToHeaderCells h) rc)
                               | _ \<Rightarrow> firstRow);
                            thead = Element (js ''thead'') [] [headerRow]
                        in if hasTbody (thead # cs) then Element tg at (thead # cs)
                           else (let (cs', moved) = detachRows (\<lambda>p. False) [] 0 cs
                                 in Element tg at
                                      (thead # cs' @ [Element (js ''tbody'') [] moved]))))))
      | _ \<Rightarrow> table)"

subsection \<open>\<open>processTableAlignments\<close>, \<open>cleanupTableAttributes\<close>, \<open>processTable\<close>\<close>

definition alignCell :: "host \<Rightarrow> node \<Rightarrow> node" where
  "alignCell h cell =
     (let textAlign = computedTextAlign h cell;
          cell1 = (if textAlign = js ''center'' then setAttribute ''data-align'' (js ''center'') cell
                   else if textAlign = js ''right'' then setAttribute ''data-align'' (js ''right'') cell
                   else if textAlign = js ''left'' then setAttribute ''data-align'' (js ''left'') cell
                   else cell);
          alignAttr = attributeOrEmpty ''align'' cell1
      in if getAttribute ''data-align'' cell1 = None \<and> alignAttr \<noteq> []
         then setAttribute ''data-align'' alignAttr cell1 else cell1)"

fun alignCells_in :: "host \<Rightarrow> node \<Rightarrow> node" where
  "alignCells_in h (Element tg at cs) =
     (let n = Element tg at (map (alignCells_in h) cs)
      in if tg = js ''th'' \<or> tg = js ''td'' then alignCell h n else n)"
| "alignCells_in h n = n"

definition processTableAlignments :: "host \<Rightarrow> node \<Rightarrow> node" where
  "processTableAlignments h table =
     (case table of
        Element tg at cs \<Rightarrow> Element tg at (map (alignCells_in h) cs)
      | _ \<Rightarrow> table)"

fun cleanupElement :: "node \<Rightarrow> node" where
  "cleanupElement (Element tg at cs) =
     Element tg
       (filter (\<lambda>(k, v). k \<in> set [js ''data-align'', js ''rowspan'', js ''colspan'']) at)
       (map cleanupElement cs)"
| "cleanupElement n = n"

definition cleanupTableAttributes :: "node \<Rightarrow> node" where
  "cleanupTableAttributes table =
     (case table of
        Element tg at cs \<Rightarrow> Element tg at (map cleanupElement cs)
      | _ \<Rightarrow> table)"

text \<open>
  \<open>processTable\<close> works on a clone and returns it. None of the tree operations it calls can
  raise on a tree, so that its \<open>catch\<close> branch is never taken.
\<close>

definition processTable :: "host \<Rightarrow> tableOptions \<Rightarrow> node \<Rightarrow> node" where
  "processTable h options tableElement =
     (let t1 = normalizeTableStructure h tableElement;
          t2 = (if alignCells options then processTableAlignments h t1 else t1);
          t3 = (if \<not> preserveTableClasses options then cleanupTableAttributes t2 else t2)
      in t3)"

subsection \<open>Nesting levels of lists, definition lists, blockquotes\<close>

fun markNestedLevels :: "nat \<Rightarrow> node \<Rightarrow> node" where
  "markNestedLevels level (Element tg at cs) =
     Element tg (putAttribute (js ''data-list-level'') (numberToString level) at)
       (map (\<lambda>item. case item of
               Element it ia ics \<Rightarrow>
                 if it = js ''li''
                 then Element it (putAttribute (js ''data-list-level'') (numberToString level) ia)
                        (map (\<lambda>nested. if isTag ''ul'' nested \<or> isTag ''ol'' nested
                                        then markNestedLevels (Suc level) nested else nested) ics)
                 else item
             | _ \<Rightarrow> item) cs)"
| "markNestedLevels level n = n"

definition processNestedList :: "node \<Rightarrow> node" where
  "processNestedList listElement = markNestedLevels 0 listElement"

fun markDefinitionParts :: "node \<Rightarrow> node" where
  "markDefinitionParts (Element tg at cs) =
     Element tg
       (if tg = js ''dt'' then putAttribute (js ''data-def-term'') (js ''true'') at
        else if tg = js ''dd'' then putAttribute (js ''data-def-desc'') (js ''true'') at
        else at)
       (map markDefinitionParts cs)"
| "markDefinitionParts n = n"

definition processDefinitionList :: "node \<Rightarrow> node" where
  "processDefinitionList dlElement =
     (case dlElement of
        Element tg at cs \<Rightarrow> Element tg at (map markDefinitionParts cs)
      | _ \<Rightarrow> dlElement)"

fun markNestedBlockquotes :: "nat \<Rightarrow> node \<Rightarrow> node" where
  "markNestedBlockquotes level (Element tg at cs) =
     Element tg (putAttribute (js ''data-quote-level'') (numberToString level) at)
       (map (\<lambda>q. if isTag ''blockquote'' q then markNestedBlockquotes (Suc level) q else q) cs)"
| "markNestedBlockquotes level n = n"

definition processBlockquote :: "node \<Rightarrow> node" where
  "processBlockquote blockquoteElement = markNestedBlockquotes 0 blockquoteElement"

section \<open>The unusual-structure rewriter (\<open>handleUnusualStructures\<close>)\<close>

text \<open>
  Each block of \<open>handleUnusualStructures\<close> asks for a static list of elements with
  \<open>querySelectorAll\<close> and rewrites them one after the other, in document order. The model
  has one function per block, from the child nodes of the container to its child nodes
  after the block. An element that is replaced as a whole takes the elements inside it out
  of the container, so that what the source then does to them is not seen any more: the
  functions below do not descend into what they replace.
\<close>

subsection \<open>Definition lists\<close>

text \<open>
  The inner loop of the block,
  \<^verbatim>\<open>while (desc.firstChild) { paragraph.appendChild(desc.firstChild.cloneNode(true)); }\<close>
  appends a clone of the first child of the description to the paragraph and leaves the
  description as it is. \<open>None\<close> stands for a loop that does not end.
\<close>

partial_function (option) cloneDescription :: "node list \<Rightarrow> node list \<Rightarrow> node list option" where
  "cloneDescription descChildren paragraph =
     (case descChildren of
        [] \<Rightarrow> Some paragraph
      | firstChild # _ \<Rightarrow> cloneDescription descChildren (paragraph @ [firstChild]))"

text \<open>
  The descriptions of a term: \<open>nextElementSibling\<close> is followed for as long as it is a
  \<open>dd\<close>.
\<close>

definition descriptionsAfter :: "node list \<Rightarrow> node list" where
  "descriptionsAfter following = takeWhile (isTag ''dd'') (filter isElement following)"

text \<open>The paragraph made for a term and one of its descriptions.\<close>

definition pairParagraph :: "node \<Rightarrow> node \<Rightarrow> node option" where
  "pairParagraph term desc =
     map_option (Element (js ''p'') [])
       (cloneDescription (childNodes desc)
          [Element (js ''strong'') [] (textNodes (textContent term)), Text (js '': '')])"

text \<open>Every \<open>dt\<close> of a forest, in document order, with the siblings that follow it.\<close>

fun termsOf :: "node list \<Rightarrow> (node \<times> node list) list" where
  "termsOf [] = []"
| "termsOf (Element tg at ch # cs) =
     (if tg = js ''dt'' then [(Element tg at ch, cs)] else []) @ termsOf ch @ termsOf cs"
| "termsOf (n # cs) = termsOf cs"

text \<open>The fragment that takes the place of a \<open>dl\<close>.\<close>

definition definitionListParagraphs :: "node \<Rightarrow> node list option" where
  "definitionListParagraphs dl =
     those (concat (map (\<lambda>(term, following). map (pairParagraph term) (descriptionsAfter following))
                      (termsOf (childNodes dl))))"

fun rewriteDefinitionLists :: "node \<Rightarrow> node list option" where
  "rewriteDefinitionLists (Element tg at cs) =
     (if tg = js ''dl'' then definitionListParagraphs (Element tg at cs)
      else map_option (\<lambda>cs'. [Element tg at (concat cs')]) (those (map rewriteDefinitionLists cs)))"
| "rewriteDefinitionLists n = Some [n]"

subsection \<open>\<open>details\<close> and \<open>summary\<close>\<close>

text \<open>
  \<open>details.querySelector('summary')\<close> is the first \<open>summary\<close> inside the element; the loop
  over the children drops it if it is a child, and moves everything else.
\<close>

fun summaryIndex :: "nat \<Rightarrow> node list \<Rightarrow> nat option" where
  "summaryIndex i [] = None"
| "summaryIndex i (c # cs) =
     (if isTag ''summary'' c then Some i
      else if querySelector ''summary'' c \<noteq> None then None
      else summaryIndex (Suc i) cs)"

fun rewriteDetails :: "node \<Rightarrow> node" where
  "rewriteDetails (Element tg at cs) =
     (let cs' = map rewriteDetails cs in
      if tg = js ''details''
      then (let title = (case querySelector ''summary'' (Element tg at cs) of
                           None \<Rightarrow> js ''Details''
                         | Some summary \<Rightarrow>
                             if textContent summary = [] then js ''Details''
                             else textContent summary);
                moved = (case summaryIndex 0 cs of
                           None \<Rightarrow> cs'
                         | Some i \<Rightarrow> take i cs' @ drop (Suc i) cs')
            in Element (js ''blockquote'') []
                 (Element (js ''strong'') [] [Text title] # Element (js ''br'') [] [] # moved))
      else Element tg at cs')"
| "rewriteDetails n = n"

subsection \<open>Figures\<close>

fun rewriteFigures :: "node \<Rightarrow> node" where
  "rewriteFigures (Element tg at cs) =
     (case (if tg = js ''figure''
            then (querySelector ''figcaption'' (Element tg at cs),
                  querySelector ''img'' (Element tg at cs))
            else (None, None)) of
        (Some figCaption, Some img) \<Rightarrow>
          (let caption = textContent figCaption;
               img' = (if trim (attributeOrEmpty ''alt'' img) = []
                       then setAttribute ''alt'' caption img else img)
           in Element (js ''p'') []
                [img', Element (js ''br'') [] [], Element (js ''em'') [] (textNodes caption)])
      | _ \<Rightarrow> Element tg at (map rewriteFigures cs))"
| "rewriteFigures n = n"

subsection \<open>List items outside a list, and what follows a nested list\<close>

text \<open>
  \<open>'body > li, div > li, p > li'\<close>: the first argument is the tag of the parent. The
  container itself is a \<open>div\<close>.
\<close>

fun wrapOrphanItems :: "jstring \<Rightarrow> node \<Rightarrow> node" where
  "wrapOrphanItems parentTag (Element tg at cs) =
     (let li = Element tg at (map (wrapOrphanItems tg) cs) in
      if tg = js ''li'' \<and> parentTag \<in> set [js ''body'', js ''div'', js ''p'']
      then Element (if js ''ol-item'' \<in> set (classList li) then js ''ol'' else js ''ul'') [] [li]
      else li)"
| "wrapOrphanItems parentTag n = n"

text \<open>
  \<open>'li > ul, li > ol'\<close>: the siblings after a nested list are moved into a \<open>span\<close> that is
  appended to the parent; a nested list among them is treated in its turn, its parent then
  being that \<open>span\<close>.
\<close>

fun wrapAfterNestedList :: "node list \<Rightarrow> node list" where
  "wrapAfterNestedList [] = []"
| "wrapAfterNestedList (c # cs) =
     (if isTag ''ul'' c \<or> isTag ''ol'' c
      then c # (if cs = [] then [] else [Element (js ''span'') [] (wrapAfterNestedList cs)])
      else c # wrapAfterNestedList cs)"

fun fixNestedLists :: "node \<Rightarrow> node" where
  "fixNestedLists (Element tg at cs) =
     (let cs' = map fixNestedLists cs in
      Element tg at (if tg = js ''li'' then wrapAfterNestedList cs' else cs'))"
| "fixNestedLists n = n"

subsection \<open>Citations in blockquotes\<close>

fun removeCites :: "node \<Rightarrow> node list" where
  "removeCites (Element tg at cs) =
     (if tg = js ''cite'' then [] else [Element tg at (concat (map removeCites cs))])"
| "removeCites n = [n]"

text \<open>
  The line break and the emphasised line appended for a citation. The prefix of the line is
  the text of the string literal as the source file has it (the code units \<open>U+00E2\<close>,
  \<open>U+20AC\<close>, \<open>U+201D\<close> and a space).
\<close>

definition attribution :: "node \<Rightarrow> node list" where
  "attribution cite =
     [Element (js ''br'') [] [],
      Element (js ''em'') [] [Text ([226, 8364, 8221, 32] @ textContent cite)]]"

fun rewriteCitations :: "node \<Rightarrow> node" where
  "rewriteCitations (Element tg at cs) =
     (if tg = js ''blockquote'' \<and> querySelectorAll ''cite'' (Element tg at cs) \<noteq> []
      then Element tg at
             (concat (map removeCites cs) @
              concat (map attribution (querySelectorAll ''cite'' (Element tg at cs))))
      else Element tg at (map rewriteCitations cs))"
| "rewriteCitations n = n"

subsection \<open>Embedded media\<close>

definition embeddedContent :: "host \<Rightarrow> node \<Rightarrow> node" where
  \<open>embeddedContent h iframe =
     (let src = attributeOrEmpty ''src'' iframe;
          title = attributeOrEmpty ''title'' iframe
      in Element (js ''div'') [(js ''class'', js ''embedded-content'')]
           ((if title \<noteq> []
             then [Element (js ''p'') []
                     (parseHTML h (js ''p'') (js ''<em>'' @ title @ js ''</em>''))]
             else []) @
            [Element (js ''p'') []
               (parseHTML h (js ''p'')
                  (js ''<strong>Embedded content:</strong> <a href="'' @ src @ js ''">'' @
                   src @ js ''</a>''))]))\<close>

fun rewriteIframes :: "host \<Rightarrow> node \<Rightarrow> node" where
  "rewriteIframes h (Element tg at cs) =
     (if tg = js ''iframe'' \<and> attributeOrEmpty ''src'' (Element tg at cs) \<noteq> []
      then embeddedContent h (Element tg at cs)
      else Element tg at (map (rewriteIframes h) cs))"
| "rewriteIframes h n = n"

text \<open>The \<open>src\<close> of the first \<open>source\<close> inside a media element, or the empty string.\<close>

definition firstSourceUrl :: "node \<Rightarrow> jstring" where
  "firstSourceUrl media =
     (case querySelectorAll ''source'' media of
        [] \<Rightarrow> []
      | source # _ \<Rightarrow> attributeOrEmpty ''src'' source)"

definition videoContent :: "host \<Rightarrow> node \<Rightarrow> node" where
  \<open>videoContent h video =
     (let poster = attributeOrEmpty ''poster'' video;
          sourceUrl = firstSourceUrl video
      in Element (js ''div'') [(js ''class'', js ''video-content'')]
           ((if poster \<noteq> []
             then parseHTML h (js ''div'')
                    (js ''<p><img src="'' @ poster @ js ''" alt="Video thumbnail"></p>'')
             else []) @
            (if sourceUrl \<noteq> []
             then [Element (js ''p'') []
                     (parseHTML h (js ''p'')
                        (js ''<strong>Video:</strong> <a href="'' @ sourceUrl @ js ''">'' @
                         sourceUrl @ js ''</a>''))]
             else [])))\<close>

fun rewriteVideos :: "host \<Rightarrow> node \<Rightarrow> node" where
  "rewriteVideos h (Element tg at cs) =
     (if tg = js ''video'' then videoContent h (Element tg at cs)
      else Element tg at (map (rewriteVideos h) cs))"
| "rewriteVideos h n = n"

definition audioContent :: "host \<Rightarrow> node \<Rightarrow> node" where
  \<open>audioContent h audio =
     (let sourceUrl = firstSourceUrl audio
      in Element (js ''div'') [(js ''class'', js ''audio-content'')]
           (if sourceUrl \<noteq> []
            then parseHTML h (js ''div'')
                   (js ''<p><strong>Audio:</strong> <a href="'' @ sourceUrl @ js ''">'' @
                    sourceUrl @ js ''</a></p>'')
            else parseHTML h (js ''div'')
                   (js ''<p><em>Audio content (source not available)</em></p>'')))\<close>

fun rewriteAudios :: "host \<Rightarrow> node \<Rightarrow> node" where
  "rewriteAudios h (Element tg at cs) =
     (if tg = js ''audio'' then audioContent h (Element tg at cs)
      else Element tg at (map (rewriteAudios h) cs))"
| "rewriteAudios h n = n"

subsection \<open>The whole rewriter\<close>

text \<open>
  The blocks in the order of the source, on the child nodes of the container. The blocks
  cannot raise on a tree, so that the \<open>catch\<close> branch of the function is never taken; the
  first block may fail to return.
\<close>

definition rewriteUnusualStructures :: "host \<Rightarrow> node list \<Rightarrow> node list option" where
  "rewriteUnusualStructures h container =
     (case those (map rewriteDefinitionLists container) of
        None \<Rightarrow> None
      | Some parts \<Rightarrow>
          Some (map (rewriteAudios h)
                 (map (rewriteVideos h)
                   (map (rewriteIframes h)
                     (map rewriteCitations
                       (map fixNestedLists
                         (map (wrapOrphanItems (js ''div''))
                           (map rewriteFigures
                             (map rewriteDetails (concat parts))))))))))"

definition handleUnusualStructures :: "host \<Rightarrow> jstring \<Rightarrow> jstring option" where
  "handleUnusualStructures h html =
     (if html = [] then Some []
      else map_option (serializeHTML h)
             (rewriteUnusualStructures h (parseHTML h (js ''div'') html)))"

section \<open>The conversion service (\<open>markdownConversionService.ts\<close>)\<close>

text \<open>
  The options that the service itself reads; the others are handed to Turndown and are part
  of \<open>turndown\<close>.
\<close>

record markdownOptions =
  preserveFrontMatter :: bool
  tableOptions :: tableOptions
  processComplexStructures :: bool

definition DEFAULT_MARKDOWN_OPTIONS :: markdownOptions where
  "DEFAULT_MARKDOWN_OPTIONS =
     \<lparr>preserveFrontMatter = True, tableOptions = DEFAULT_TABLE_OPTIONS,
      processComplexStructures = True\<rparr>"

text \<open>
  The placeholder map \<open>_preservedContent\<close>, the only state of the service: a \<open>Map\<close> keeps
  its entries in the order of insertion.
\<close>

type_synonym preserved = "(jstring \<times> jstring) list"

definition mapSet :: "jstring \<Rightarrow> jstring \<Rightarrow> preserved \<Rightarrow> preserved" where
  "mapSet = putAttribute"

subsection \<open>\<open>extractFrontMatter\<close>\<close>

text \<open>A literal under the flag \<open>i\<close>: two code units match if their upper-case forms agree.\<close>

definition ignoreCase :: "string \<Rightarrow> regex" where
  "ignoreCase s =
     seqs (map (\<lambda>c. Class (\<lambda>x. (if 97 \<le> x \<and> x \<le> 122 then x - 32 else x) =
                                (if 97 \<le> (of_char c :: nat) \<and> (of_char c :: nat) \<le> 122
                                 then of_char c - 32 else of_char c))) s)"

text \<open>\<open>/<!--\s*front-matter\s*\n([\s\S]*?)\n-->/i\<close>\<close>

definition frontMatterRegex :: regex where
  "frontMatterRegex =
     seqs [lit ''<!--'', Star ws, ignoreCase ''front-matter'', Star ws, chr 10,
           Group 1 (Lazy anyChar), lit ''\<newline>-->'']"

definition extractFrontMatter :: "markdownOptions \<Rightarrow> jstring \<Rightarrow> jstring \<times> jstring option" where
  "extractFrontMatter options html =
     (if \<not> preserveFrontMatter options then (html, None)
      else (case search frontMatterRegex [] html of
              None \<Rightarrow> (html, None)
            | Some m \<Rightarrow> (replaceString html (matched m) [], Some (trim (grp m 1)))))"

subsection \<open>\<open>preserveSpecialContent\<close>\<close>

text \<open>
  \<open>replace\<close> with a callback that changes variables of the enclosing function: the callback
  is given their values and returns the new ones.
\<close>

function replaceAllWith ::
  "regex \<Rightarrow> ('s \<Rightarrow> rmatch \<Rightarrow> jstring \<times> 's) \<Rightarrow> 's \<Rightarrow> jstring \<Rightarrow> jstring \<Rightarrow> jstring \<times> 's" where
  "replaceAllWith r f st pre s =
     (case matchAt r s of
        None \<Rightarrow>
          (case s of
             [] \<Rightarrow> ([], st)
           | x # xs \<Rightarrow> (let (out, st') = replaceAllWith r f st (pre @ [x]) xs in (x # out, st')))
      | Some m \<Rightarrow>
          (let (rep, st1) =
                 f st \<lparr>matched = take (length s - length (fst m)) s, groups = snd m, before = pre\<rparr>
           in if length (fst m) < length s
              then (let (out, st') =
                          replaceAllWith r f st1 (pre @ take (length s - length (fst m)) s) (fst m)
                    in (rep @ out, st'))
              else (case s of
                      [] \<Rightarrow> (rep, st1)
                    | x # xs \<Rightarrow>
                        (let (out, st') = replaceAllWith r f st1 (pre @ [x]) xs
                         in (rep @ x # out, st')))))"
  by pat_completeness auto
termination
  by (relation "measure (\<lambda>(r, f, st, pre, s). length s)") auto

declare replaceAllWith.simps [simp del]

text \<open>
  The callbacks of the function share \<open>placeholderCounter\<close> and the map \<open>preservedContent\<close>.
  \<open>keep prefix value\<close> is the body they have in common: a new placeholder is made from the
  counter, the value computed from the match is stored under it, and the placeholder is what
  the match is replaced with.
\<close>

definition keep ::
  "string \<Rightarrow> (rmatch \<Rightarrow> jstring) \<Rightarrow> nat \<times> preserved \<Rightarrow> rmatch \<Rightarrow> jstring \<times> (nat \<times> preserved)" where
  "keep prefix val st m =
     (let placeholder = js prefix @ numberToString (fst st)
      in (placeholder, (Suc (fst st), mapSet placeholder (val m) (snd st))))"

text \<open>\<open>/\$([^$]+)\$/g\<close>, \<open>/\$\$([\s\S]+?)\$\$/g\<close> and \<open>/<!--\s*@preserve\s*([\s\S]*?)-->/g\<close>\<close>

definition inlineMathRegex :: regex where
  "inlineMathRegex = seqs [chr 36, Group 1 (Plus (noneOf ''$'')), chr 36]"

definition blockMathRegex :: regex where
  "blockMathRegex = seqs [lit ''$$'', Group 1 (LazyPlus anyChar), lit ''$$'']"

definition commentRegex :: regex where
  "commentRegex =
     seqs [lit ''<!--'', Star ws, lit ''@preserve'', Star ws, Group 1 (Lazy anyChar), lit ''-->'']"

text \<open>\<open>'pre.mermaid, pre.math, pre.graphviz, pre[data-preserve]'\<close>\<close>

definition isSpecialBlock :: "node \<Rightarrow> bool" where
  "isSpecialBlock n \<longleftrightarrow>
     isTag ''pre'' n \<and>
     (js ''mermaid'' \<in> set (classList n) \<or> js ''math'' \<in> set (classList n) \<or>
      js ''graphviz'' \<in> set (classList n) \<or> getAttribute ''data-preserve'' n \<noteq> None)"

text \<open>
  The loop over the special blocks. A block is replaced by what its parent parses the
  placeholder to; a special block inside a special block still takes a number and an
  entry of the map, and is out of the container by then.
\<close>

fun replaceBlocks :: "host \<Rightarrow> jstring \<Rightarrow> nat \<Rightarrow> node list \<Rightarrow> node list \<times> nat" where
  "replaceBlocks h parentTag n [] = ([], n)"
| "replaceBlocks h parentTag n (Element tg at ch # cs) =
     (if isSpecialBlock (Element tg at ch)
      then (let n' = Suc n + length (filter isSpecialBlock (descendants (Element tg at ch)));
                (cs', n'') = replaceBlocks h parentTag n' cs
            in (parseHTML h parentTag (js ''SPECIAL_BLOCK_PLACEHOLDER_'' @ numberToString n) @ cs',
                n''))
      else (let (ch', n') = replaceBlocks h tg n ch;
                (cs', n'') = replaceBlocks h parentTag n' cs
            in (Element tg at ch' # cs', n'')))"
| "replaceBlocks h parentTag n (x # cs) =
     (let (cs', n') = replaceBlocks h parentTag n cs in (x # cs', n'))"

definition blockEntries :: "host \<Rightarrow> nat \<Rightarrow> node list \<Rightarrow> preserved" where
  "blockEntries h n blocks =
     map (\<lambda>(i, block). (js ''SPECIAL_BLOCK_PLACEHOLDER_'' @ numberToString (n + i), outerHTML h block))
       (enumerate 0 blocks)"

text \<open>
  \<open>preserveSpecialContent\<close>: the text returned and the map stored in \<open>_preservedContent\<close>.
  The three \<open>replace\<close> calls work on the parameter \<open>html\<close>; the value returned is the
  \<open>innerHTML\<close> of the container, which was filled from \<open>html\<close> before the calls.
\<close>

definition preserveSpecialContent :: "host \<Rightarrow> preserved \<Rightarrow> jstring \<Rightarrow> jstring \<times> preserved" where
  "preserveSpecialContent h stored html =
     (if html = [] then ([], stored)
      else
        (let container = parseHTML h (js ''div'') html;
             (html1, st1) = replaceAllWith inlineMathRegex (keep ''MATH_PLACEHOLDER_'' matched)
                              (0, []) [] html;
             (html2, st2) = replaceAllWith blockMathRegex (keep ''MATH_BLOCK_PLACEHOLDER_'' matched)
                              st1 [] html1;
             blocks = filter isSpecialBlock (forestNodes container);
             container' = fst (replaceBlocks h (js ''div'') (fst st2) container);
             st3 = (fst st2 + length blocks,
                    foldl (\<lambda>m (k, v). mapSet k v m) (snd st2) (blockEntries h (fst st2) blocks));
             (html3, st4) = replaceAllWith commentRegex
                              (keep ''COMMENT_PLACEHOLDER_'' (\<lambda>m. trim (grp m 1))) st3 [] html2
         in (serializeHTML h container', snd st4)))"

subsection \<open>\<open>restoreSpecialContent\<close>\<close>

definition restoreOne :: "host \<Rightarrow> jstring \<Rightarrow> jstring \<times> jstring \<Rightarrow> jstring" where
  "restoreOne h result entry =
     (let placeholder = fst entry; originalContent = snd entry in
      if startsWith placeholder (js ''MATH_PLACEHOLDER_'')
      then replaceString result placeholder originalContent
      else if startsWith placeholder (js ''MATH_BLOCK_PLACEHOLDER_'')
      then replaceString result placeholder ([10, 10] @ originalContent @ [10, 10])
      else if startsWith placeholder (js ''SPECIAL_BLOCK_PLACEHOLDER_'')
      then (case find (isTag ''pre'') (forestNodes (parseHTML h (js ''div'') originalContent)) of
              Some pre \<Rightarrow>
                (let lang = (case find (\<lambda>c. c \<in> set [js ''mermaid'', js ''math'', js ''graphviz''])
                                   (classList pre) of
                               Some c \<Rightarrow> c
                             | None \<Rightarrow> []);
                     content = textContent pre
                 in replaceString result placeholder
                      ([10, 10] @ js ''```'' @ lang @ [10] @ content @ [10] @ js ''```'' @ [10, 10]))
            | None \<Rightarrow> replaceString result placeholder originalContent)
      else if startsWith placeholder (js ''COMMENT_PLACEHOLDER_'')
      then replaceString result placeholder (js ''<!-- '' @ originalContent @ js '' -->'')
      else result)"

definition restoreSpecialContent :: "host \<Rightarrow> preserved \<Rightarrow> jstring \<Rightarrow> jstring \<times> preserved" where
  "restoreSpecialContent h stored markdown =
     (if markdown = [] \<or> stored = [] then (markdown, stored)
      else (foldl (restoreOne h) markdown stored, []))"

subsection \<open>\<open>preProcessComplexStructures\<close>\<close>

text \<open>
  Each loop of the function replaces elements by their processed clones. \<open>outermost P f\<close>
  applies \<open>f\<close> to the elements that satisfy \<open>P\<close> and lie in no other such element: these are
  the tables and definition lists that are still in the container when their turn comes,
  and the lists and blockquotes for which \<open>closest\<close> finds no ancestor of their kind.
\<close>

fun outermost :: "(node \<Rightarrow> bool) \<Rightarrow> (node \<Rightarrow> node) \<Rightarrow> node \<Rightarrow> node" where
  "outermost P f (Element tg at cs) =
     (if P (Element tg at cs) then f (Element tg at cs)
      else Element tg at (map (outermost P f) cs))"
| "outermost P f n = n"

definition normalizeStructures :: "host \<Rightarrow> markdownOptions \<Rightarrow> node list \<Rightarrow> node list" where
  "normalizeStructures h options container =
     map (outermost (isTag ''blockquote'') processBlockquote)
       (map (outermost (isTag ''dl'') processDefinitionList)
         (map (outermost (\<lambda>n. isTag ''ul'' n \<or> isTag ''ol'' n) processNestedList)
           (map (outermost (isTag ''table'') (processTable h (tableOptions options)))
              container)))"

definition preProcessComplexStructures :: "host \<Rightarrow> markdownOptions \<Rightarrow> jstring \<Rightarrow> jstring" where
  "preProcessComplexStructures h options html =
     serializeHTML h (normalizeStructures h options (parseHTML h (js ''div'') html))"

subsection \<open>\<open>convertToMarkdown\<close>\<close>

text \<open>
  The text that \<open>convertToMarkdown\<close> hands to Turndown (the variable \<open>htmlToConvert\<close>), with
  the front matter and the placeholder map as they are at that point; \<open>None\<close> if the
  rewriter does not return.
\<close>

definition htmlToConvert ::
  "host \<Rightarrow> markdownOptions \<Rightarrow> jstring \<Rightarrow> (jstring \<times> jstring option \<times> preserved) option" where
  "htmlToConvert h options html =
     (let (processedHtml, frontMatter) = extractFrontMatter options html;
          (htmlWithPreservedContent, stored) = preserveSpecialContent h [] processedHtml
      in case handleUnusualStructures h htmlWithPreservedContent of
           None \<Rightarrow> None
         | Some htmlWithProcessedStructures \<Rightarrow>
             Some (if processComplexStructures options
                   then preProcessComplexStructures h options htmlWithProcessedStructures
                   else htmlWithProcessedStructures,
                   frontMatter, stored))"

definition conversionFailed :: "jstring \<Rightarrow> jstring" where
  "conversionFailed html = js ''<!-- Markdown conversion failed -->'' @ [10, 10] @ html"

text \<open>
  \<open>convertToMarkdown\<close>: the string returned and the placeholder map afterwards, or \<open>None\<close>
  if the call does not return. The only step of the \<open>try\<close> block that may throw is the call
  of Turndown; the \<open>catch\<close> block logs the error and returns the input behind a comment.
\<close>

definition convertToMarkdown ::
  "host \<Rightarrow> markdownOptions \<Rightarrow> preserved \<Rightarrow> jstring \<Rightarrow> (jstring \<times> preserved) option" where
  "convertToMarkdown h options stored html =
     (if html = [] \<or> trim html = [] then Some ([], stored)
      else (case htmlToConvert h options html of
              None \<Rightarrow> None
            | Some (toConvert, frontMatter, stored1) \<Rightarrow>
                (case turndown h toConvert of
                   Inl error \<Rightarrow> Some (conversionFailed html, stored1)
                 | Inr markdown \<Rightarrow>
                     (let (markdownWithRestoredContent, stored2) =
                            restoreSpecialContent h stored1 markdown;
                          cleanedMarkdown = postProcessMarkdown markdownWithRestoredContent
                      in Some (case frontMatter of
                                 None \<Rightarrow> cleanedMarkdown
                               | Some fm \<Rightarrow>
                                   if fm = [] then cleanedMarkdown
                                   else js ''---'' @ [10] @ fm @ [10] @ js ''---'' @ [10, 10] @
                                        cleanedMarkdown,
                               stored2)))))"

section \<open>A host for the examples\<close>

text \<open>
  To run the services on concrete inputs, the parameters need values. The host below
  prints HTML as the fragment serialisation algorithm of the HTML standard does (without
  the elements whose text is printed raw), parses the well-formed markup that this
  printing gives (tags with attributes in double quotes, text, comments, the character
  references \<open>&amp;\<close>, \<open>&lt;\<close>, \<open>&gt;\<close>, \<open>&quot;\<close>, \<open>&nbsp;\<close>), reports no computed alignment,
  and converts with the small converter \<open>sampleTurndown\<close>.
\<close>

definition voidElements :: "jstring list" where
  "voidElements =
     map js [''area'', ''base'', ''br'', ''col'', ''embed'', ''hr'', ''img'', ''input'',
             ''link'', ''meta'', ''source'', ''track'', ''wbr'']"

definition escapeText :: "jstring \<Rightarrow> jstring" where
  "escapeText s =
     concat (map (\<lambda>c. if c = 38 then js ''&amp;'' else if c = 160 then js ''&nbsp;''
                       else if c = 60 then js ''&lt;'' else if c = 62 then js ''&gt;''
                       else [c]) s)"

definition escapeAttribute :: "jstring \<Rightarrow> jstring" where
  "escapeAttribute s =
     concat (map (\<lambda>c. if c = 38 then js ''&amp;'' else if c = 160 then js ''&nbsp;''
                       else if c = 34 then js ''&quot;'' else [c]) s)"

fun serializeNode :: "node \<Rightarrow> jstring" where
  "serializeNode (Element tg at cs) =
     js ''<'' @ tg @
     concat (map (\<lambda>(k, v). js '' '' @ k @ [61, 34] @ escapeAttribute v @ [34]) at) @
     js ''>'' @
     (if tg \<in> set voidElements then []
      else concat (map serializeNode cs) @ js ''</'' @ tg @ js ''>'')"
| "serializeNode (Text t) = escapeText t"
| "serializeNode (Comment t) = js ''<!--'' @ t @ js ''-->''"

definition sampleSerialize :: "node list \<Rightarrow> jstring" where
  "sampleSerialize ns = concat (map serializeNode ns)"

datatype token =
    OpenTag jstring "(jstring \<times> jstring) list"
  | CloseTag jstring
  | Chars jstring
  | Remark jstring

definition decodeReferences :: "jstring \<Rightarrow> jstring" where
  "decodeReferences s =
     replace (seqs [chr 38,
                    Group 1 (Alt (lit ''amp'') (Alt (lit ''lt'') (Alt (lit ''gt'')
                              (Alt (lit ''quot'') (lit ''nbsp''))))),
                    chr 59])
       (\<lambda>m. if grp m 1 = js ''amp'' then [38] else if grp m 1 = js ''lt'' then [60]
             else if grp m 1 = js ''gt'' then [62] else if grp m 1 = js ''quot'' then [34]
             else [160]) s"

text \<open>An attribute: white space, a name, and a value in double quotes if there is one.\<close>

definition attributeRegex :: regex where
  \<open>attributeRegex =
     seqs [Plus ws, Group 1 (Plus (Class (\<lambda>c. \<not> isWhiteSpace c \<and> c \<noteq> 61 \<and> c \<noteq> 62))),
           Alt (seqs [chr 61, chr 34, Group 2 (Star (Class (\<lambda>c. c \<noteq> 34))), chr 34]) Eps]\<close>

function readAttributes :: "jstring \<Rightarrow> (jstring \<times> jstring) list" where
  "readAttributes s =
     (case matchAt attributeRegex s of
        None \<Rightarrow> []
      | Some st \<Rightarrow>
          (if length (fst st) < length s
           then ((case snd st 1 of None \<Rightarrow> [] | Some k \<Rightarrow> k),
                 decodeReferences (case snd st 2 of None \<Rightarrow> [] | Some v \<Rightarrow> v)) #
                readAttributes (fst st)
           else []))"
  by pat_completeness auto
termination
  by (relation "measure length") auto

declare readAttributes.simps [simp del]

definition tagName :: regex where
  "tagName = Plus (Class (\<lambda>c. isAlnum c \<or> c = 45))"

definition remarkRegex :: regex where
  "remarkRegex = seqs [lit ''<!--'', Group 1 (Lazy anyChar), lit ''-->'']"

definition closeTagRegex :: regex where
  "closeTagRegex = seqs [lit ''</'', Group 1 tagName, Star ws, chr 62]"

definition openTagRegex :: regex where
  \<open>openTagRegex =
     seqs [chr 60, Group 1 tagName,
           Group 2 (Star (Alt (seqs [chr 34, Star (Class (\<lambda>c. c \<noteq> 34)), chr 34])
                              (Class (\<lambda>c. c \<noteq> 62 \<and> c \<noteq> 34)))),
           chr 62]\<close>

definition charsRegex :: regex where
  "charsRegex = seqs [anyChar, Star (Class (\<lambda>c. c \<noteq> 60))]"

definition nextToken :: "jstring \<Rightarrow> (token \<times> jstring) option" where
  "nextToken s =
     (case matchAt remarkRegex s of
        Some st \<Rightarrow> Some (Remark (case snd st 1 of None \<Rightarrow> [] | Some t \<Rightarrow> t), fst st)
      | None \<Rightarrow>
     (case matchAt closeTagRegex s of
        Some st \<Rightarrow> Some (CloseTag (case snd st 1 of None \<Rightarrow> [] | Some t \<Rightarrow> t), fst st)
      | None \<Rightarrow>
     (case matchAt openTagRegex s of
        Some st \<Rightarrow>
          Some (OpenTag (case snd st 1 of None \<Rightarrow> [] | Some t \<Rightarrow> t)
                  (readAttributes (case snd st 2 of None \<Rightarrow> [] | Some a \<Rightarrow> a)), fst st)
      | None \<Rightarrow>
     (case matchAt charsRegex s of
        Some st \<Rightarrow>
          Some (Chars (decodeReferences (take (length s - length (fst st)) s)), fst st)
      | None \<Rightarrow> None))))"

function tokenize :: "jstring \<Rightarrow> token list" where
  "tokenize s =
     (case nextToken s of
        None \<Rightarrow> []
      | Some (t, rest) \<Rightarrow> (if length rest < length s then t # tokenize rest else [t]))"
  by pat_completeness auto
termination
  by (relation "measure length") auto

declare tokenize.simps [simp del]

text \<open>
  The tree of a list of tokens: \<open>stack\<close> holds the elements that are open, each with the
  nodes that precede it in its parent, and \<open>cur\<close> the children read so far of the
  innermost one.
\<close>

fun buildTree ::
  "token list \<Rightarrow> (jstring \<times> (jstring \<times> jstring) list \<times> node list) list \<Rightarrow> node list \<Rightarrow> node list" where
  "buildTree [] [] cur = cur"
| "buildTree [] ((tg, at, earlier) # stack) cur = buildTree [] stack (earlier @ [Element tg at cur])"
| "buildTree (Chars t # ts) stack cur = buildTree ts stack (cur @ [Text t])"
| "buildTree (Remark t # ts) stack cur = buildTree ts stack (cur @ [Comment t])"
| "buildTree (OpenTag tg at # ts) stack cur =
     (if tg \<in> set voidElements then buildTree ts stack (cur @ [Element tg at []])
      else buildTree ts ((tg, at, cur) # stack) [])"
| "buildTree (CloseTag tg # ts) [] cur = buildTree ts [] cur"
| "buildTree (CloseTag tg # ts) ((tg', at, earlier) # stack) cur =
     buildTree ts stack (earlier @ [Element tg' at cur])"

definition sampleParse :: "jstring \<Rightarrow> jstring \<Rightarrow> node list" where
  "sampleParse context s = buildTree (tokenize s) [] []"

text \<open>
  A converter for the examples, in the place of Turndown: text is kept, a paragraph is set
  between blank lines, emphasis is written with \<open>*\<close> and \<open>**\<close>, a line break as two
  spaces and a line feed (the rule \<open>lineBreaks\<close> of the service); every other element
  gives what its children give, and a comment gives nothing. It never throws.
\<close>

fun sampleRule :: "node \<Rightarrow> jstring" where
  "sampleRule (Element tg at cs) =
     (let content = concat (map sampleRule cs) in
      if tg = js ''p'' then [10, 10] @ content @ [10, 10]
      else if tg = js ''em'' then js ''*'' @ content @ js ''*''
      else if tg = js ''strong'' then js ''**'' @ content @ js ''**''
      else if tg = js ''br'' then js ''  '' @ [10]
      else content)"
| "sampleRule (Text t) = t"
| "sampleRule (Comment t) = []"

definition sampleTurndown :: "jstring \<Rightarrow> exn + jstring" where
  "sampleTurndown html = Inr (trim (concat (map sampleRule (sampleParse (js ''div'') html))))"

definition sampleHost :: host where
  "sampleHost =
     \<lparr>parseHTML = sampleParse, serializeHTML = sampleSerialize,
      computedTextAlign = (\<lambda>n. []), turndown = sampleTurndown\<rparr>"

section \<open>Notions used in the statements and proofs\<close>






text \<open>
  The characters that the patterns of \<open>postProcessMarkdown\<close> are built around, the strings
  without them, and the patterns that cannot match without consuming one of them.
\<close>

definition special :: "nat \<Rightarrow> bool" where
  "special c \<longleftrightarrow> isLineTerminator c \<or> c \<in> set (js ''*_|[`'')"

definition plain :: "jstring \<Rightarrow> bool" where
  "plain s \<longleftrightarrow> (\<forall>c \<in> set s. \<not> special c)"

fun needsSpecial :: "regex \<Rightarrow> bool" where
  "needsSpecial (Class p) = (\<forall>c. p c \<longrightarrow> special c)"
| "needsSpecial Eps = False"
| "needsSpecial (Seq a b) = (needsSpecial a \<or> needsSpecial b)"
| "needsSpecial (Alt a b) = (needsSpecial a \<and> needsSpecial b)"
| "needsSpecial (Star a) = False"
| "needsSpecial (Lazy a) = False"
| "needsSpecial (Group n a) = needsSpecial a"
| "needsSpecial (Ahead a) = needsSpecial a"
| "needsSpecial EndLine = False"

section \<open>Running the model on concrete inputs\<close>

lemma times_numeral: "times (numeral k) a = Seq a (times (pred_numeral k) a)"
  by (simp add: numeral_eq_Suc)

lemma times_one: "times 1 a = Seq a Eps"
  by simp

lemma upTo_numeral: "upTo (numeral k) a = Alt (Seq a (upTo (pred_numeral k) a)) Eps"
  by (simp add: numeral_eq_Suc)

lemma upTo_one: "upTo 1 a = Alt (Seq a Eps) Eps"
  by simp

lemmas regex_defs =
  times_numeral times_one upTo_numeral upTo_one seqs_def lit_def chr_def oneOf_def noneOf_def
  Plus_def LazyPlus_def between_def atLeast_def ws_def nws_def digit_def dot_def blank_def
  alnum_def anyChar_def hash_def emphasisDelimiter_def

lemmas string_defs =
  js_def isWhiteSpace_def isLineTerminator_def isDigit_def isAlnum_def isBlank_def trim_def
  toLowerCase_def lastLine_def parseInt_def numberToString.simps

lemmas replace_defs = replace_def replaceAll.simps matchAt_def grp_def

lemmas postProcess_defs =
  postProcessMarkdown_def postProcessSteps_def renumber_def replace_defs regex_defs string_defs

lemmas host_defs =
  sampleHost_def sampleParse_def sampleSerialize_def tokenize.simps nextToken_def
  readAttributes.simps buildTree.simps escapeText_def escapeAttribute_def decodeReferences_def
  voidElements_def attributeRegex_def tagName_def remarkRegex_def closeTagRegex_def
  openTagRegex_def charsRegex_def sampleTurndown_def replace_defs regex_defs string_defs

lemmas tree_defs =
  isElement_def childNodes_def attributes_def getAttribute_def attributeOrEmpty_def
  setAttribute_def querySelectorAll_def querySelector_def textNodes_def classList_def
  isAsciiSpace_def outerHTML_def

lemmas service_defs =
  DEFAULT_MARKDOWN_OPTIONS_def DEFAULT_TABLE_OPTIONS_def mapSet_def ignoreCase_def
  frontMatterRegex_def extractFrontMatter_def search.simps replaceAllWith.simps keep_def
  inlineMathRegex_def blockMathRegex_def commentRegex_def isSpecialBlock_def blockEntries_def
  preserveSpecialContent_def restoreOne_def restoreSpecialContent_def replaceString_def
  normalizeStructures_def preProcessComplexStructures_def Let_def

subsection \<open>Facts about trees\<close>

lemma isTag_simps [simp]:
  "isTag t (Element tg at cs) = (tg = js t)"
  "isTag t (Text x) = False"
  "isTag t (Comment x) = False"
  by (simp_all add: isTag_def)

lemma forestNodes_simps [simp]:
  "forestNodes [] = []"
  "forestNodes (c # cs) = c # descendants c @ forestNodes cs"
  by (simp_all add: forestNodes_def)

lemma descendants_Element [simp]: "descendants (Element tg at cs) = forestNodes cs"
  by (simp add: forestNodes_def)

declare descendants.simps(1) [simp del]

lemma forestNodes_append [simp]: "forestNodes (xs @ ys) = forestNodes xs @ forestNodes ys"
  by (simp add: forestNodes_def)

section \<open>The post-processor: indentation of nested lists\<close>

text \<open>
  C7. A list nested three levels deep is claimed to come out with its markers indented by
  two spaces per level: none, two, four. The step \<open>/\n\s*[-*+]\s/g \<rightarrow> '\n- '\<close> of
  \<open>postProcessMarkdown\<close> removes all white space before a list marker that follows a line
  feed, and it runs before the step that is to recompute the indentation, which then finds
  nothing to work on. The converted text of such a list, with the indentation the claim asks
  for, leaves the post-processor with all three markers at the left margin.
\<close>

theorem nested_list_markers_flattened:
  "postProcessMarkdown (js ''- a\<newline>  - b\<newline>    - c'') = js ''- a\<newline>- b\<newline>- c''"
  by (simp add: postProcess_defs)

section \<open>The post-processor: idempotence\<close>

lemma postProcess_emphasis_first_pass: "postProcessMarkdown (js ''a**b'') = js ''a ** b''"
  by (simp add: postProcess_defs)

lemma postProcess_emphasis_second_pass: "postProcessMarkdown (js ''a ** b'') = js ''a * * b''"
  by (simp add: postProcess_defs)

text \<open>
  C2, as stated: \<open>postProcessMarkdown\<close> is idempotent on every string. It is not: the steps
  that put a space next to an emphasis delimiter turn \<open>a**b\<close> into \<open>a ** b\<close>, and a second
  pass reads the two asterisks as two delimiters and gives \<open>a * * b\<close>.
\<close>

theorem postProcessMarkdown_not_idempotent:
  "postProcessMarkdown (postProcessMarkdown (js ''a**b'')) \<noteq> postProcessMarkdown (js ''a**b'')"
  by (simp only: postProcess_emphasis_first_pass postProcess_emphasis_second_pass)
     (simp add: js_def)

section \<open>Table normalisation\<close>

lemma detachRows_no_rows:
  "filter (isTag ''tr'') (forestNodes cs) = [] \<Longrightarrow> detachRows stays pp i cs = (cs, [])"
proof (induction stays pp i cs rule: detachRows.induct)
  case (2 stays pp i tg at ch cs)
  from "2.prems" have notr: "tg \<noteq> js ''tr''"
    and ch: "filter (isTag ''tr'') (forestNodes ch) = []"
    and cs: "filter (isTag ''tr'') (forestNodes cs) = []"
    by (auto split: if_splits)
  have a: "detachRows stays (pp @ [i]) 0 ch = (ch, [])"
    using "2.IH"(1) ch by simp
  have b: "detachRows stays pp (Suc i) cs = (cs, [])"
    using "2.IH"(2)[OF refl a[symmetric]] cs a by simp
  show ?case using a b notr by simp
qed simp_all



lemma table_tags_differ [simp]:
  "js ''tbody'' \<noteq> js ''tr''" "js ''thead'' \<noteq> js ''tr''" "js ''tbody'' \<noteq> js ''thead''"
  "js ''table'' \<noteq> js ''tr''" "js ''tr'' \<noteq> js ''tbody''"
  by (simp_all add: js_def)

subsection \<open>A table without rows\<close>

text \<open>
  C9, as stated: for a table with zero rows normalisation is a no-op, no header or body
  section being added. The source makes a body section whenever the table has none,
  whether it has rows or not: the empty table leaves \<open>normalizeTableStructure\<close> with an
  empty \<open>tbody\<close>, and \<open>processTable\<close> returns a clone that differs from the table.
\<close>

theorem rowless_table_gets_body_section:
  "normalizeTableStructure sampleHost (Element (js ''table'') [] []) =
     Element (js ''table'') [] [Element (js ''tbody'') [] []] \<and>
   processTable sampleHost DEFAULT_TABLE_OPTIONS (Element (js ''table'') [] []) \<noteq>
     Element (js ''table'') [] []"
  by (simp add: normalizeTableStructure_def hasTbody_def processTable_def
        DEFAULT_TABLE_OPTIONS_def processTableAlignments_def)

text \<open>
  C9, amended: for every table with zero rows, normalisation raises no exception, adds no
  header section and moves no node; a table that has a body section is returned
  unchanged, and to a table that has none an empty body section is appended as its last
  child.
\<close>

theorem normalize_rowless_table:
  assumes "filter (isTag ''tr'') (forestNodes cs) = []"
  shows "normalizeTableStructure h (Element tg at cs) =
           (if hasTbody cs then Element tg at cs
            else Element tg at (cs @ [Element (js ''tbody'') [] []]))"
  using assms
  by (auto simp: normalizeTableStructure_def detachRows_no_rows split: option.splits)

theorem normalize_rowless_table_witness:
  "filter (isTag ''tr'') (forestNodes [Element (js ''caption'') [] [Text (js ''t'')]]) = [] \<and>
   normalizeTableStructure sampleHost
     (Element (js ''table'') [] [Element (js ''caption'') [] [Text (js ''t'')]]) =
   Element (js ''table'') []
     [Element (js ''caption'') [] [Text (js ''t'')], Element (js ''tbody'') [] []]"
  using normalize_rowless_table
          [of "[Element (js ''caption'') [] [Text (js ''t'')]]" sampleHost "js ''table''" "[]"]
  by (simp add: hasTbody_def js_def)

subsection \<open>A table with rows\<close>


text \<open>
  Where the first row has no header cell, the source puts a converted clone of the row into
  the header section and leaves the row itself in the body: the row then heads both
  sections. (The comments of the source speak of moving the row.)
\<close>

lemma first_row_of_cells_duplicated:
  "normalizeTableStructure sampleHost
     (Element (js ''table'') []
        [Element (js ''tbody'') []
           [Element (js ''tr'') [] [Element (js ''td'') [] [Text (js ''A'')]],
            Element (js ''tr'') [] [Element (js ''td'') [] [Text (js ''1'')]]]]) =
   Element (js ''table'') []
     [Element (js ''thead'') []
        [Element (js ''tr'') [] [Element (js ''th'') [] [Text (js ''A'')]]],
      Element (js ''tbody'') []
        [Element (js ''tr'') [] [Element (js ''td'') [] [Text (js ''A'')]],
         Element (js ''tr'') [] [Element (js ''td'') [] [Text (js ''1'')]]]]"
  by (simp add: normalizeTableStructure_def hasTbody_def querySelector_def host_defs)



section \<open>The unusual-structure rewriter\<close>

subsection \<open>The loop that copies a description\<close>

lemma cloneDescription_empty: "cloneDescription [] p = Some p"
  by (simp add: cloneDescription.simps)

lemma cloneDescription_returns_only_on_empty:
  assumes "cloneDescription d p = Some r"
  shows "d = []"
  using assms
  by (rule cloneDescription.raw_induct[rotated 1, where P = "\<lambda>d p r. d = []"])
     (auto split: list.splits)

text \<open>A description that has a child node is copied without end.\<close>

lemma cloneDescription_loops: "cloneDescription (c # cs) p = None"
  using cloneDescription_returns_only_on_empty[of "c # cs" p]
  by (cases "cloneDescription (c # cs) p") auto

lemmas rewriter_defs =
  handleUnusualStructures_def rewriteUnusualStructures_def definitionListParagraphs_def
  descriptionsAfter_def pairParagraph_def cloneDescription_empty cloneDescription_loops
  attribution_def embeddedContent_def firstSourceUrl_def videoContent_def audioContent_def

subsection \<open>Definition lists\<close>

lemma pairParagraph_empty:
  "childNodes desc = [] \<Longrightarrow>
   pairParagraph term desc =
     Some (Element (js ''p'') []
             [Element (js ''strong'') [] (textNodes (textContent term)), Text (js '': '')])"
  by (simp add: pairParagraph_def cloneDescription_empty)

lemma those_append:
  "those (xs @ ys) = (case those xs of None \<Rightarrow> None | Some a \<Rightarrow> map_option ((@) a) (those ys))"
proof (induction xs)
  case Nil
  then show ?case by (cases "those ys") auto
next
  case (Cons x xs)
  then show ?case
    by (cases x; cases "those xs"; cases "those ys") auto
qed

lemma those_pairParagraphs:
  "\<forall>desc \<in> set ds. childNodes desc = [] \<Longrightarrow>
   those (map (pairParagraph term) ds) =
     Some (replicate (length ds)
             (Element (js ''p'') []
                [Element (js ''strong'') [] (textNodes (textContent term)), Text (js '': '')]))"
  by (induction ds) (auto simp: pairParagraph_empty)

lemma those_term_paragraphs:
  "\<forall>(term, following) \<in> set ts.
     \<forall>desc \<in> set (descriptionsAfter following). childNodes desc = [] \<Longrightarrow>
   those (concat (map (\<lambda>(term, following).
                         map (pairParagraph term) (descriptionsAfter following)) ts)) =
     Some (concat (map (\<lambda>(term, following).
             replicate (length (descriptionsAfter following))
               (Element (js ''p'') []
                  [Element (js ''strong'') [] (textNodes (textContent term)), Text (js '': '')]))
            ts))"
  by (induction ts) (auto simp: those_append those_pairParagraphs)

text \<open>
  The paragraph is made inside the loop over the descriptions of a term: a term that no
  description follows gets none, and is removed with the list.
\<close>

lemma term_without_description_dropped:
  "rewriteUnusualStructures sampleHost
     [Element (js ''dl'') [] [Element (js ''dt'') [] [Text (js ''Term'')]]] = Some []"
  by (simp add: rewriter_defs tree_defs)

text \<open>
  Where every description is empty, the block returns one paragraph for every pair of a
  term and a description that follows it: the bold term and the colon.
\<close>

lemma definition_list_paragraphs:
  assumes "\<forall>(term, following) \<in> set (termsOf cs).
             \<forall>desc \<in> set (descriptionsAfter following). childNodes desc = []"
  shows "rewriteDefinitionLists (Element (js ''dl'') at cs) =
           Some (concat (map (\<lambda>(term, following).
                   replicate (length (descriptionsAfter following))
                     (Element (js ''p'') []
                        [Element (js ''strong'') [] (textNodes (textContent term)),
                         Text (js '': '')]))
                  (termsOf cs)))"
  using those_term_paragraphs[OF assms]
  by (simp add: definitionListParagraphs_def childNodes_def)

lemma those_None: "None \<in> set xs \<Longrightarrow> those xs = None"
  by (induction xs) (auto split: option.splits)

lemma pairParagraph_content: "childNodes desc \<noteq> [] \<Longrightarrow> pairParagraph term desc = None"
  by (cases "childNodes desc") (simp_all add: pairParagraph_def cloneDescription_loops)

text \<open>
  C6. For every definition list the rewrite is claimed to emit a paragraph per term with the
  bold term, a colon and the content of the descriptions that follow the term. The loop
  under the comment \<open>Clone the description content\<close> appends a clone of the first child of
  the description and never removes that child: as soon as a description that follows a
  term has a child node, the rewrite of the list does not return, and no paragraph is
  emitted at all. The list of the fourth example of the specification,
  \<open><dl><dt>Term</dt><dd>Def</dd></dl>\<close>, is the witness.
\<close>

theorem description_content_never_copied:
  assumes "(term, following) \<in> set (termsOf cs)"
    and "desc \<in> set (descriptionsAfter following)"
    and "childNodes desc \<noteq> []"
  shows "rewriteDefinitionLists (Element (js ''dl'') at cs) = None"
proof -
  have "None \<in> set (concat (map (\<lambda>(term, following).
                        map (pairParagraph term) (descriptionsAfter following)) (termsOf cs)))"
    using assms pairParagraph_content[OF assms(3), of "term"] by force
  then show ?thesis
    by (simp add: definitionListParagraphs_def childNodes_def those_None)
qed

theorem description_content_never_copied_witness:
  "(Element (js ''dt'') [] [Text (js ''Term'')], [Element (js ''dd'') [] [Text (js ''Def'')]]) \<in>
     set (termsOf [Element (js ''dt'') [] [Text (js ''Term'')],
                   Element (js ''dd'') [] [Text (js ''Def'')]]) \<and>
   Element (js ''dd'') [] [Text (js ''Def'')] \<in>
     set (descriptionsAfter [Element (js ''dd'') [] [Text (js ''Def'')]]) \<and>
   childNodes (Element (js ''dd'') [] [Text (js ''Def'')]) \<noteq> [] \<and>
   rewriteDefinitionLists
     (Element (js ''dl'') []
        [Element (js ''dt'') [] [Text (js ''Term'')],
         Element (js ''dd'') [] [Text (js ''Def'')]]) = None"
proof -
  have 1: "(Element (js ''dt'') [] [Text (js ''Term'')], [Element (js ''dd'') [] [Text (js ''Def'')]]) \<in>
     set (termsOf [Element (js ''dt'') [] [Text (js ''Term'')],
                   Element (js ''dd'') [] [Text (js ''Def'')]])"
    by simp
  have 2: "Element (js ''dd'') [] [Text (js ''Def'')] \<in>
     set (descriptionsAfter [Element (js ''dd'') [] [Text (js ''Def'')]])"
    by (simp add: descriptionsAfter_def isElement_def)
  have 3: "childNodes (Element (js ''dd'') [] [Text (js ''Def'')]) \<noteq> []"
    by (simp add: childNodes_def)
  from description_content_never_copied[OF 1 2 3, of "[]"] 1 2 3 show ?thesis by blast
qed

subsection \<open>Embedded media\<close>


text \<open>
  The block for \<open>video\<close> has no branch for a missing source, which the block for \<open>audio\<close>
  has: the element is replaced by an empty wrapper.
\<close>

lemma video_without_source_emptied:
  "rewriteUnusualStructures sampleHost [Element (js ''video'') [] []] =
     Some [Element (js ''div'') [(js ''class'', js ''video-content'')] []]"
  by (simp add: rewriter_defs tree_defs js_def)







section \<open>The conversion as a whole\<close>

lemma default_options [simp]:
  "processComplexStructures DEFAULT_MARKDOWN_OPTIONS"
  "preserveFrontMatter DEFAULT_MARKDOWN_OPTIONS"
  by (simp_all add: DEFAULT_MARKDOWN_OPTIONS_def)

subsection \<open>Empty and blank input\<close>

lemma trim_whitespace:
  assumes "\<forall>c \<in> set s. isWhiteSpace c"
  shows "trim s = []"
  using assms by (auto simp: trim_def dest: set_dropWhileD)

text \<open>
  C10. For an input that is empty or consists of white space only, \<open>convertToMarkdown\<close>
  returns the empty string, without the comment of the fallback and without front-matter
  fences, and the placeholder map is as it was before the call.
\<close>

theorem blank_input_gives_empty_string:
  assumes "\<forall>c \<in> set html. isWhiteSpace c"
  shows "convertToMarkdown h options stored html = Some ([], stored)"
  using trim_whitespace[OF assms] by (simp add: convertToMarkdown_def)

theorem blank_input_gives_empty_string_witness:
  "convertToMarkdown sampleHost DEFAULT_MARKDOWN_OPTIONS [(js ''MATH_PLACEHOLDER_0'', js ''$a$'')]
     (js '' '' @ [10, 9]) = Some ([], [(js ''MATH_PLACEHOLDER_0'', js ''$a$'')])"
  using blank_input_gives_empty_string
          [of "js '' '' @ [10, 9]" sampleHost DEFAULT_MARKDOWN_OPTIONS
              "[(js ''MATH_PLACEHOLDER_0'', js ''$a$'')]"]
  by (simp add: js_def isWhiteSpace_def)

subsection \<open>The option \<open>processComplexStructures\<close>\<close>

lemma audio_extractFrontMatter:
  \<open>extractFrontMatter (DEFAULT_MARKDOWN_OPTIONS\<lparr>processComplexStructures := False\<rparr>)
     (js ''<audio></audio>'') = (js ''<audio></audio>'', None)\<close>
  by (simp add: service_defs replace_defs regex_defs string_defs)

lemma audio_preserveSpecialContent:
  \<open>preserveSpecialContent sampleHost [] (js ''<audio></audio>'') = (js ''<audio></audio>'', [])\<close>
  by (simp add: service_defs tree_defs host_defs)

lemma audio_handleUnusualStructures:
  \<open>handleUnusualStructures sampleHost (js ''<audio></audio>'') =
     Some (js ''<div class="audio-content"><p><em>Audio content (source not available)</em></p></div>'')\<close>
  by (simp add: rewriter_defs tree_defs host_defs)

text \<open>
  C5, as stated: with \<open>processComplexStructures\<close> false, neither the structure normalizer
  nor the unusual-structure rewriter runs before the tree conversion. The option guards
  the call of \<open>preProcessComplexStructures\<close> only; \<open>handleUnusualStructures\<close> is called
  before it, whatever the option says. With the option false, Turndown is handed the
  rewritten \<open>audio\<close> element.
\<close>

theorem rewriter_runs_without_option:
  \<open>htmlToConvert sampleHost (DEFAULT_MARKDOWN_OPTIONS\<lparr>processComplexStructures := False\<rparr>)
     (js ''<audio></audio>'') =
   Some (js ''<div class="audio-content"><p><em>Audio content (source not available)</em></p></div>'',
         None, [])\<close>
  by (simp add: htmlToConvert_def audio_extractFrontMatter audio_preserveSpecialContent
        audio_handleUnusualStructures)

text \<open>
  C5, amended: with \<open>processComplexStructures\<close> false, \<open>convertToMarkdown\<close> does not run
  the structure normalizer: what it hands to the tree converter is the result of the
  unusual-structure rewriter, which runs whatever the option says, on the input with its
  front matter taken out and its special content preserved.
\<close>

theorem normalizer_skipped_without_option:
  assumes "\<not> processComplexStructures options"
  shows "htmlToConvert h options html =
           (let (processedHtml, frontMatter) = extractFrontMatter options html;
                (preserved, stored) = preserveSpecialContent h [] processedHtml
            in map_option (\<lambda>rewritten. (rewritten, frontMatter, stored))
                 (handleUnusualStructures h preserved))"
  using assms
  by (auto simp: htmlToConvert_def Let_def split: prod.splits option.splits)

theorem normalizer_skipped_without_option_witness:
  \<open>\<not> processComplexStructures (DEFAULT_MARKDOWN_OPTIONS\<lparr>processComplexStructures := False\<rparr>) \<and>
   htmlToConvert sampleHost (DEFAULT_MARKDOWN_OPTIONS\<lparr>processComplexStructures := False\<rparr>)
     (js ''<audio></audio>'') =
   Some (js ''<div class="audio-content"><p><em>Audio content (source not available)</em></p></div>'',
         None, [])\<close>
  using normalizer_skipped_without_option
          [of "DEFAULT_MARKDOWN_OPTIONS\<lparr>processComplexStructures := False\<rparr>" sampleHost
              "js ''<audio></audio>''"]
  by (simp add: audio_extractFrontMatter audio_preserveSpecialContent
        audio_handleUnusualStructures)

subsection \<open>A call that does not return\<close>

lemma dl_extractFrontMatter:
  \<open>extractFrontMatter DEFAULT_MARKDOWN_OPTIONS (js ''<dl><dt>Term</dt><dd>Def</dd></dl>'') =
     (js ''<dl><dt>Term</dt><dd>Def</dd></dl>'', None)\<close>
  by (simp add: service_defs replace_defs regex_defs string_defs)

lemma dl_preserveSpecialContent:
  \<open>preserveSpecialContent sampleHost [] (js ''<dl><dt>Term</dt><dd>Def</dd></dl>'') =
     (js ''<dl><dt>Term</dt><dd>Def</dd></dl>'', [])\<close>
  by (simp add: service_defs tree_defs host_defs)

lemma dl_handleUnusualStructures:
  \<open>handleUnusualStructures sampleHost (js ''<dl><dt>Term</dt><dd>Def</dd></dl>'') = None\<close>
  by (simp add: rewriter_defs tree_defs host_defs)

lemma dl_not_blank:
  \<open>js ''<dl><dt>Term</dt><dd>Def</dd></dl>'' \<noteq> [] \<and>
   trim (js ''<dl><dt>Term</dt><dd>Def</dd></dl>'') \<noteq> []\<close>
  by (simp add: string_defs)

text \<open>
  C1. \<open>convertToMarkdown\<close> is claimed to return a string for every input. What can throw
  inside its \<open>try\<close> block is caught, and the input is then returned behind the comment (the
  lemma after the theorem). But for the definition list of the fourth example of the
  specification the call does not return at all: the rewriter copies the first child of the
  description again and again.
\<close>

theorem definition_list_never_returns:
  \<open>convertToMarkdown sampleHost DEFAULT_MARKDOWN_OPTIONS []
     (js ''<dl><dt>Term</dt><dd>Def</dd></dl>'') = None\<close>
  using dl_not_blank
  by (simp add: convertToMarkdown_def htmlToConvert_def dl_extractFrontMatter
        dl_preserveSpecialContent dl_handleUnusualStructures)

lemma fallback_when_turndown_throws:
  assumes "htmlToConvert h options html = Some (toConvert, frontMatter, stored1)"
    and "turndown h toConvert = Inl error"
    and "trim html \<noteq> []"
  shows "convertToMarkdown h options stored html =
           Some (js ''<!-- Markdown conversion failed -->'' @ [10, 10] @ html, stored1)"
  using assms by (auto simp: convertToMarkdown_def conversionFailed_def trim_def)

subsection \<open>Mathematics behind placeholders\<close>











text \<open>
  The string that \<open>preserveSpecialContent\<close> returns is the serialization of the tree that
  was parsed from its argument before the replacements: the placeholder is in the map, and
  not in the string that goes on to the converter.
\<close>

lemma math_placeholder_not_in_html:
  \<open>preserveSpecialContent sampleHost [] (js ''<p>$x+y=z$</p>'') =
     (js ''<p>$x+y=z$</p>'', [(js ''MATH_PLACEHOLDER_0'', js ''$x+y=z$'')])\<close>
  by (simp add: service_defs tree_defs host_defs)
















end
